theory Spec2Isabelle
  imports Complex_Main "HOL-Library.AList" "HOL-Library.Word"
begin

section \<open>Surround-view calibration generator\<close>

text \<open>
  The repository holds two variants of one script, \<^verbatim>\<open>camparameters/generate_calibration.py\<close>
  and \<^verbatim>\<open>calibrationData/GenerateCals/generate_calibration.py\<close>.  Both derive a focal length
  from a horizontal field of view, compose a rotation matrix from Euler angles, and write one
  OpenCV \<^verbatim>\<open>FileStorage\<close> document per camera plus one shared crop descriptor.

  Numbers.  The scripts compute in IEEE binary64 through numpy.  The embedding computes in
  exact real arithmetic: \<^verbatim>\<open>np.cos\<close>, \<^verbatim>\<open>np.sin\<close>, \<^verbatim>\<open>np.tan\<close> are
  \<^term>\<open>cos\<close>, \<^term>\<open>sin\<close>, \<^term>\<open>tan\<close> on \<^typ>\<open>real\<close>, \<^verbatim>\<open>np.pi\<close> is \<^term>\<open>pi\<close>, and
  the casts \<^verbatim>\<open>astype(np.float32)\<close>, \<^verbatim>\<open>dtype=np.float32\<close> and \<^verbatim>\<open>float(...)\<close> keep the value.
  Rounding is therefore outside the model; every statement below is about the exact values the
  floating-point run approximates.  The one floating-point effect that changes the kind of
  result, division by zero, is written out (see \<open>np_true_divide\<close>).
\<close>

subsection \<open>3x3 arrays\<close>

type_synonym 'a vec3 = "'a \<times> 'a \<times> 'a"
type_synonym 'a mat3 = "('a \<times> 'a \<times> 'a) \<times> ('a \<times> 'a \<times> 'a) \<times> ('a \<times> 'a \<times> 'a)"

text \<open>A \<^verbatim>\<open>np.array\<close> of shape (3,3) is the triple of its rows.\<close>

fun dot :: "real vec3 \<Rightarrow> real vec3 \<Rightarrow> real" where
  "dot (a, b, c) (x, y, z) = a * x + b * y + c * z"

fun transpose3 :: "'a mat3 \<Rightarrow> 'a mat3" where
  "transpose3 ((a, b, c), (d, e, f), (g, h, i)) = ((a, d, g), (b, e, h), (c, f, i))"

text \<open>The operator \<^verbatim>\<open>@\<close> on two (3,3) arrays: entry (i,j) is row i of the left operand times
  column j of the right operand.\<close>

fun matmul :: "real mat3 \<Rightarrow> real mat3 \<Rightarrow> real mat3" where
  "matmul (r0, r1, r2) B =
     (case transpose3 B of (c0, c1, c2) \<Rightarrow>
        ((dot r0 c0, dot r0 c1, dot r0 c2),
         (dot r1 c0, dot r1 c1, dot r1 c2),
         (dot r2 c0, dot r2 c1, dot r2 c2)))"


definition identity3 :: "real mat3" where
  "identity3 = ((1, 0, 0), (0, 1, 0), (0, 0, 1))"

text \<open>\<^verbatim>\<open>np.linalg.det\<close> of a (3,3) array; in exact arithmetic the LU-based value numpy
  computes is the cofactor expansion.\<close>

fun det3 :: "real mat3 \<Rightarrow> real" where
  "det3 ((a, b, c), (d, e, f), (g, h, i)) =
     a * (e * i - f * h) - b * (d * i - f * g) + c * (d * h - e * g)"

subsection \<open>Geometry (both variants)\<close>

text \<open>\<^verbatim>\<open>np.radians(x)\<close> multiplies by \<open>pi/180\<close>.\<close>

definition radians :: "real \<Rightarrow> real" where
  "radians deg = deg * (pi / 180)"

text \<open>
  \<^verbatim>\<open>euler_to_rotation_matrix(yaw_deg, pitch_deg, roll_deg=0)\<close> of
  \<^verbatim>\<open>camparameters/generate_calibration.py\<close>.  The third parameter has a default value, so the
  argument is optional: \<open>None\<close> is the call with two arguments.
\<close>

definition euler_to_rotation_matrix :: "real \<Rightarrow> real \<Rightarrow> real option \<Rightarrow> real mat3" where
  "euler_to_rotation_matrix yaw_deg pitch_deg roll_arg =
     (let roll_deg = (case roll_arg of None \<Rightarrow> 0 | Some r \<Rightarrow> r);
          yaw = radians yaw_deg;
          pitch = radians pitch_deg;
          roll = radians roll_deg;
          Rz = ((cos yaw, - sin yaw, 0),
                (sin yaw, cos yaw, 0),
                (0, 0, 1));
          Rx = ((1, 0, 0),
                (0, cos pitch, - sin pitch),
                (0, sin pitch, cos pitch));
          Ry = ((cos roll, 0, sin roll),
                (0, 1, 0),
                (- sin roll, 0, cos roll))
      in matmul (matmul Rz Ry) Rx)"

text \<open>The same function as written in \<^verbatim>\<open>calibrationData/GenerateCals/generate_calibration.py\<close>.\<close>

definition GenerateCals_euler_to_rotation_matrix :: "real \<Rightarrow> real \<Rightarrow> real option \<Rightarrow> real mat3" where
  "GenerateCals_euler_to_rotation_matrix yaw_deg pitch_deg roll_arg =
     (let roll_deg = (case roll_arg of None \<Rightarrow> 0 | Some r \<Rightarrow> r);
          yaw = radians yaw_deg;
          pitch = radians pitch_deg;
          roll = radians roll_deg;
          Rz = ((cos yaw, - sin yaw, 0),
                (sin yaw, cos yaw, 0),
                (0, 0, 1));
          Rx = ((1, 0, 0),
                (0, cos pitch, - sin pitch),
                (0, sin pitch, cos pitch));
          Ry = ((cos roll, 0, sin roll),
                (0, 1, 0),
                (- sin roll, 0, cos roll))
      in matmul (matmul Rz Ry) Rx)"

text \<open>
  A numpy binary64 value is a finite number, an infinity or a NaN.  Only the division in
  \<^verbatim>\<open>fov_to_focal_length\<close> can leave the finite numbers on finite arguments: numpy's scalar
  division by zero issues a \<^verbatim>\<open>RuntimeWarning\<close> and returns \<open>inf\<close>, \<open>-inf\<close> or \<open>nan\<close>; it does not
  raise.
\<close>

datatype npfloat = Finite real | PosInf | NegInf | NaN

definition np_true_divide :: "real \<Rightarrow> real \<Rightarrow> npfloat" where
  "np_true_divide a b =
     (if b \<noteq> 0 then Finite (a / b)
      else if 0 < a then PosInf
      else if a < 0 then NegInf
      else NaN)"

text \<open>
  \<^verbatim>\<open>fov_to_focal_length(fov_deg, image_width)\<close>.  There is no range check in either variant.
  Where \<open>fov_deg / 2\<close> is an odd multiple of 90 degrees the exact tangent has a pole;
  \<^term>\<open>tan\<close> is 0 there by convention in HOL, while binary64 never hits the pole exactly.
  No statement below depends on the value returned at such an argument.
\<close>

definition fov_to_focal_length :: "real \<Rightarrow> real \<Rightarrow> npfloat" where
  "fov_to_focal_length fov_deg image_width =
     (let fov_rad = radians fov_deg;
          focal_length = np_true_divide image_width (2 * tan (fov_rad / 2))
      in focal_length)"

definition GenerateCals_fov_to_focal_length :: "real \<Rightarrow> real \<Rightarrow> npfloat" where
  "GenerateCals_fov_to_focal_length fov_deg image_width =
     (let fov_rad = radians fov_deg;
          focal_length = np_true_divide image_width (2 * tan (fov_rad / 2))
      in focal_length)"

subsection \<open>Decimal text of an integer\<close>

text \<open>The f-string field \<^verbatim>\<open>{idx}\<close> of a Python \<^verbatim>\<open>int\<close>: its decimal digits, with a minus
  sign when negative.\<close>

definition digit_char :: "nat \<Rightarrow> char" where
  "digit_char d = ''0123456789'' ! d"

function str_nat :: "nat \<Rightarrow> string" where
  "str_nat n = (if n < 10 then [digit_char n] else str_nat (n div 10) @ [digit_char (n mod 10)])"
  by pat_completeness auto
termination
  by (relation "measure (\<lambda>n. n)") auto

declare str_nat.simps [simp del]

definition str_int :: "int \<Rightarrow> string" where
  "str_int i = (if i < 0 then CHR ''-'' # str_nat (nat (- i)) else str_nat (nat i))"

subsection \<open>Output files and console\<close>

text \<open>
  A \<^verbatim>\<open>cv2.FileStorage\<close> opened for writing collects keyed values in the order of the
  \<^verbatim>\<open>write\<close> calls and stores them under its file name at \<^verbatim>\<open>release\<close>, replacing a file of
  that name.  The values are the Python objects handed to \<^verbatim>\<open>write\<close>: a float, an int, a
  string, or a numpy array with its element type and shape.  The output directory is an
  association list from file names to documents, in order of first creation.

  Of the console output the model keeps the two lines that depend on more than the
  configuration's own values: the \<open>Saved\<close> line of each file and the determinant line of the
  first variant, with the verdict that selects its check mark or its \<open>ERROR\<close> mark.
\<close>

datatype np_array =
    Float32_2d "npfloat list list"
  | Float64_2d "npfloat list list"
  | Int32_1d "32 word list"

datatype fs_value = FsReal npfloat | FsInt int | FsString string | FsArray np_array

type_synonym fs_doc = "(string \<times> fs_value) list"

datatype event = Saved string | DetLine real bool

record world =
  files :: "(string \<times> fs_doc) list"
  console :: "event list"

definition empty_world :: world where
  "empty_world = \<lparr>files = [], console = []\<rparr>"

fun rows3 :: "'a mat3 \<Rightarrow> 'a list list" where
  "rows3 ((a, b, c), (d, e, f), (g, h, i)) = [[a, b, c], [d, e, f], [g, h, i]]"

text \<open>\<^verbatim>\<open>R.astype(np.float32)\<close> as the array written to the file.\<close>

definition astype_float32 :: "real mat3 \<Rightarrow> np_array" where
  "astype_float32 R = Float32_2d (map (map Finite) (rows3 R))"

text \<open>\<^verbatim>\<open>np.zeros((3, 1), dtype=np.float64)\<close>.\<close>

definition zeros_3_1 :: np_array where
  "zeros_3_1 = Float64_2d [[Finite 0], [Finite 0], [Finite 0]]"

subsection \<open>Variant \<^verbatim>\<open>camparameters/generate_calibration.py\<close>\<close>

definition save_camera_yaml ::
  "int \<Rightarrow> string \<Rightarrow> real mat3 \<Rightarrow> npfloat \<Rightarrow> real \<Rightarrow> real \<Rightarrow> string \<Rightarrow> int \<Rightarrow> world \<Rightarrow> world" where
  "save_camera_yaml idx name R focal_length cx cy ip port w =
     (let K = Float32_2d [[focal_length, Finite 0, Finite cx],
                          [Finite 0, focal_length, Finite cy],
                          [Finite 0, Finite 0, Finite 1]];
          filename = ''Camparam'' @ str_int idx @ ''.yaml'';
          fs = [(''FocalLength'', FsReal focal_length),
                (''Intrisic'', FsArray K),
                (''Rotation'', FsArray (astype_float32 R)),
                (''Translation'', FsArray zeros_3_1),
                (''CameraName'', FsString name),
                (''CameraIP'', FsString ip),
                (''CameraPort'', FsInt port)]
      in w\<lparr>files := AList.update filename fs (files w),
            console := console w @ [Saved filename]\<rparr>)"

text \<open>Camera definitions: (idx, name, yaw, pitch, roll, ip, port).\<close>

type_synonym camera = "int \<times> string \<times> real \<times> real \<times> real \<times> string \<times> int"

text \<open>Lines 155 to 157 of \<open>main\<close>: the determinant is computed and printed with a mark chosen by
  \<^verbatim>\<open>abs(det - 1.0) < 0.001\<close>.  Nothing else reads the verdict.\<close>

definition print_determinant :: "real mat3 \<Rightarrow> world \<Rightarrow> world" where
  "print_determinant R w =
     (let det = det3 R
      in w\<lparr>console := console w @ [DetLine det (\<bar>det - 1.0\<bar> < 0.001)]\<rparr>)"

text \<open>The part of the loop body of \<open>main\<close> that follows the computation of \<open>R\<close>: the file is
  saved first, the determinant is looked at afterwards.\<close>

definition save_and_report ::
  "npfloat \<Rightarrow> int \<Rightarrow> int \<Rightarrow> int \<Rightarrow> string \<Rightarrow> string \<Rightarrow> int \<Rightarrow> real mat3 \<Rightarrow> world \<Rightarrow> world" where
  "save_and_report focal_length image_width image_height idx name ip port R w =
     print_determinant R
       (save_camera_yaml idx name R focal_length
          (real_of_int image_width / 2) (real_of_int image_height / 2) ip port w)"

fun main_loop_body :: "npfloat \<Rightarrow> int \<Rightarrow> int \<Rightarrow> world \<Rightarrow> camera \<Rightarrow> world" where
  "main_loop_body focal_length image_width image_height w (idx, name, yaw, pitch, roll, ip, port) =
     (let R = euler_to_rotation_matrix yaw pitch (Some roll)
      in save_and_report focal_length image_width image_height idx name ip port R w)"

text \<open>The \<open>for\<close> loop over the camera list, from a given state of the output directory.\<close>

definition main_loop :: "npfloat \<Rightarrow> int \<Rightarrow> int \<Rightarrow> camera list \<Rightarrow> world \<Rightarrow> world" where
  "main_loop focal_length image_width image_height cameras w =
     foldl (main_loop_body focal_length image_width image_height) w cameras"

text \<open>The crop descriptor, written after the loop (lines 164 to 177).\<close>

definition write_output_crop :: "world \<Rightarrow> world" where
  "write_output_crop w =
     (let output_width = 1920;
          output_height = 1080;
          output_config = ''corner_warppts.yaml'';
          fs = [(''res_size'', FsArray (Int32_1d [output_width, output_height])),
                (''tl'', FsArray (Int32_1d [0, 0])),
                (''tr'', FsArray (Int32_1d [output_width, 0])),
                (''bl'', FsArray (Int32_1d [0, output_height])),
                (''br'', FsArray (Int32_1d [output_width, output_height]))]
      in w\<lparr>files := AList.update output_config fs (files w),
            console := console w @ [Saved ''corner_warppts.yaml'']\<rparr>)"

subsection \<open>Variant \<^verbatim>\<open>calibrationData/GenerateCals/generate_calibration.py\<close>\<close>

text \<open>This variant is a flat script.  Its loop body builds the intrinsic matrix and writes the
  file inline, with four keys, and has no determinant line.\<close>

fun GenerateCals_loop_body :: "npfloat \<Rightarrow> int \<Rightarrow> int \<Rightarrow> world \<Rightarrow> camera \<Rightarrow> world" where
  "GenerateCals_loop_body focal_length image_width image_height w (idx, name, yaw, pitch, roll, ip, port) =
     (let R = GenerateCals_euler_to_rotation_matrix yaw pitch (Some roll);
          K = Float32_2d [[focal_length, Finite 0, Finite (real_of_int image_width / 2)],
                          [Finite 0, focal_length, Finite (real_of_int image_height / 2)],
                          [Finite 0, Finite 0, Finite 1]];
          filename = ''Camparam'' @ str_int idx @ ''.yaml'';
          fs = [(''FocalLength'', FsReal focal_length),
                (''Intrisic'', FsArray K),
                (''Rotation'', FsArray (astype_float32 R)),
                (''Translation'', FsArray zeros_3_1)]
      in w\<lparr>files := AList.update filename fs (files w),
            console := console w @ [Saved filename]\<rparr>)"

definition GenerateCals_write_output_crop :: "world \<Rightarrow> world" where
  "GenerateCals_write_output_crop w =
     (let output_config = ''corner_warppts.yaml'';
          fs = [(''res_size'', FsArray (Int32_1d [1920, 1080])),
                (''tl'', FsArray (Int32_1d [0, 0])),
                (''tr'', FsArray (Int32_1d [1920, 0])),
                (''bl'', FsArray (Int32_1d [0, 1080])),
                (''br'', FsArray (Int32_1d [1920, 1080]))]
      in w\<lparr>files := AList.update output_config fs (files w),
            console := console w @ [Saved output_config]\<rparr>)"

subsection \<open>Configuration and entry points\<close>

text \<open>
  The values under the heading \<^verbatim>\<open>CONFIGURATION - Modify these values for your setup\<close> are
  the parameters of the run; \<open>main\<close> is the run at the values the script carries, into an
  empty output directory.  The camera list is the literal of the script, built on \<open>pitch_down\<close>.
\<close>

record config =
  image_width :: int
  image_height :: int
  horizontal_fov :: real
  pitch_down :: real

definition cameras_of :: "real \<Rightarrow> camera list" where
  "cameras_of pitch =
     [(0, ''Front'', 0, pitch, 0, ''192.168.45.10'', 5020),
      (1, ''Left'', 90, pitch, 0, ''192.168.45.11'', 5021),
      (2, ''Rear'', 180, pitch, 0, ''192.168.45.12'', 5022),
      (3, ''Right'', 270, pitch, 0, ''192.168.45.13'', 5023)]"

definition main_with :: "config \<Rightarrow> world \<Rightarrow> world" where
  "main_with cfg w =
     (let focal_length = fov_to_focal_length (horizontal_fov cfg) (real_of_int (image_width cfg));
          cameras = cameras_of (pitch_down cfg);
          w1 = main_loop focal_length (image_width cfg) (image_height cfg) cameras w
      in write_output_crop w1)"

definition builtin_config :: config where
  "builtin_config = \<lparr>image_width = 1280, image_height = 800, horizontal_fov = 120, pitch_down = 20\<rparr>"

definition main :: world where
  "main = main_with builtin_config empty_world"

definition GenerateCals_script_with :: "config \<Rightarrow> world \<Rightarrow> world" where
  "GenerateCals_script_with cfg w =
     (let focal_length = GenerateCals_fov_to_focal_length (horizontal_fov cfg) (real_of_int (image_width cfg));
          cameras = cameras_of (pitch_down cfg);
          w1 = foldl (GenerateCals_loop_body focal_length (image_width cfg) (image_height cfg)) w cameras
      in GenerateCals_write_output_crop w1)"

definition GenerateCals_script :: world where
  "GenerateCals_script = GenerateCals_script_with builtin_config empty_world"

subsection \<open>Reading the output back\<close>

text \<open>The value stored under a key of a written file, if the file and the key exist.\<close>

definition written_value :: "world \<Rightarrow> string \<Rightarrow> string \<Rightarrow> fs_value option" where
  "written_value w filename key =
     (case map_of (files w) filename of None \<Rightarrow> None | Some fs \<Rightarrow> map_of fs key)"

text \<open>The calibration content of a camera file: focal length, intrinsic matrix, rotation and
  translation, without the metadata entries.\<close>

definition calibration_content :: "fs_doc \<Rightarrow> fs_doc" where
  "calibration_content fs =
     filter (\<lambda>kv. fst kv \<in> set [''FocalLength'', ''Intrisic'', ''Rotation'', ''Translation'']) fs"

subsection \<open>The rotation as the specification words it\<close>

text \<open>Elementary rotations by an angle in radians, and their composition in the order
  \<open>Rz \<cdot> Ry \<cdot> Rx\<close> on angles given in degrees.\<close>

definition Rz :: "real \<Rightarrow> real mat3" where
  "Rz t = ((cos t, - sin t, 0), (sin t, cos t, 0), (0, 0, 1))"

definition Rx :: "real \<Rightarrow> real mat3" where
  "Rx t = ((1, 0, 0), (0, cos t, - sin t), (0, sin t, cos t))"

definition Ry :: "real \<Rightarrow> real mat3" where
  "Ry t = ((cos t, 0, sin t), (0, 1, 0), (- sin t, 0, cos t))"


subsection \<open>Orthonormality and tolerances\<close>

text \<open>A rotation matrix: its transpose is its inverse and its determinant is 1.\<close>

definition orthonormal :: "real mat3 \<Rightarrow> bool" where
  "orthonormal M \<longleftrightarrow> matmul (transpose3 M) M = identity3 \<and> det3 M = 1"

text \<open>Entrywise agreement of two arrays up to an absolute tolerance.\<close>

definition allclose :: "real \<Rightarrow> real mat3 \<Rightarrow> real mat3 \<Rightarrow> bool" where
  "allclose tol A B \<longleftrightarrow>
     list_all (\<lambda>(a, b). \<bar>a - b\<bar> \<le> tol) (zip (concat (rows3 A)) (concat (rows3 B)))"

section \<open>Properties of the geometry\<close>

lemma matmul_assoc: "matmul (matmul A B) C = matmul A (matmul B C)"
  by (cases A, cases B, cases C) (auto simp: algebra_simps)

lemma matmul_identity3_left: "matmul identity3 A = A"
  by (cases A) (auto simp: identity3_def)

lemma matmul_identity3_right: "matmul A identity3 = A"
  by (cases A) (auto simp: identity3_def)



subsection \<open>Rotations are orthonormal\<close>

lemma transpose3_matmul: "transpose3 (matmul A B) = matmul (transpose3 B) (transpose3 A)"
  by (cases A, cases B) (auto simp: algebra_simps)

lemma det3_matmul: "det3 (matmul A B) = det3 A * det3 B"
  by (cases A, cases B) (auto simp: algebra_simps)

lemma orthonormal_matmul:
  assumes "orthonormal A" and "orthonormal B"
  shows "orthonormal (matmul A B)"
proof -
  have "matmul (transpose3 (matmul A B)) (matmul A B)
        = matmul (transpose3 B) (matmul (matmul (transpose3 A) A) B)"
    by (simp only: transpose3_matmul matmul_assoc)
  also have "\<dots> = identity3"
    using assms by (simp add: orthonormal_def matmul_identity3_left)
  finally show ?thesis
    using assms by (simp add: orthonormal_def det3_matmul)
qed

lemma sin_sin_cos_cos: "sin t * sin t + cos t * cos t = (1::real)"
  using sin_cos_squared_add3 [of t] by (simp add: add.commute)

lemma orthonormal_Rz: "orthonormal (Rz t)"
  by (simp add: orthonormal_def Rz_def identity3_def sin_sin_cos_cos)

lemma orthonormal_Rx: "orthonormal (Rx t)"
  by (simp add: orthonormal_def Rx_def identity3_def sin_sin_cos_cos)

lemma orthonormal_Ry: "orthonormal (Ry t)"
  by (simp add: orthonormal_def Ry_def identity3_def sin_sin_cos_cos)

lemma euler_as_product:
  "euler_to_rotation_matrix y p ro =
     matmul (matmul (Rz (radians y)) (Ry (radians (case ro of None \<Rightarrow> 0 | Some r \<Rightarrow> r))))
       (Rx (radians p))"
  by (simp add: euler_to_rotation_matrix_def Rz_def Rx_def Ry_def Let_def)

lemma orthonormal_euler: "orthonormal (euler_to_rotation_matrix y p ro)"
  by (simp only: euler_as_product orthonormal_matmul orthonormal_Rz orthonormal_Rx orthonormal_Ry)

lemma allclose_refl: "0 \<le> tol \<Longrightarrow> allclose tol A A"
  by (auto simp: allclose_def list_all_iff zip_same)

text \<open>
  C2.  Every matrix the function returns is orthonormal: its transpose times itself is the
  identity and its determinant is 1, for all angle arguments.  In exact arithmetic both hold
  without error, hence within the tolerance \<open>1e-3\<close>, and at pitch 20, roll 0 and each of the
  yaws 0, 90, 180, 270 within \<open>1e-6\<close>.
\<close>

theorem rotation_matrix_orthonormal:
  "matmul (transpose3 (euler_to_rotation_matrix yawDeg pitchDeg rollArg))
          (euler_to_rotation_matrix yawDeg pitchDeg rollArg) = identity3
   \<and> det3 (euler_to_rotation_matrix yawDeg pitchDeg rollArg) = 1
   \<and> allclose (1 / 10 ^ 3)
        (matmul (transpose3 (euler_to_rotation_matrix yawDeg pitchDeg rollArg))
                (euler_to_rotation_matrix yawDeg pitchDeg rollArg)) identity3
   \<and> \<bar>det3 (euler_to_rotation_matrix yawDeg pitchDeg rollArg) - 1\<bar> \<le> 1 / 10 ^ 3
   \<and> list_all (\<lambda>yaw.
         \<bar>det3 (euler_to_rotation_matrix yaw 20 (Some 0)) - 1\<bar> \<le> 1 / 10 ^ 6
         \<and> allclose (1 / 10 ^ 6)
              (matmul (transpose3 (euler_to_rotation_matrix yaw 20 (Some 0)))
                      (euler_to_rotation_matrix yaw 20 (Some 0))) identity3)
       [0, 90, 180, 270]"
proof -
  have o: "\<And>y p ro. matmul (transpose3 (euler_to_rotation_matrix y p ro))
          (euler_to_rotation_matrix y p ro) = identity3 \<and> det3 (euler_to_rotation_matrix y p ro) = 1"
    using orthonormal_euler by (simp add: orthonormal_def)
  show ?thesis
    by (simp add: o allclose_refl)
qed

subsection \<open>Focal length\<close>

lemma sqrt3_bounds: "1.73205 < sqrt 3" "sqrt 3 < 1.73206"
  by (rule real_less_rsqrt, simp add: power2_eq_square)
     (rule real_less_lsqrt, simp_all add: power2_eq_square)

lemma focal_builtin: "fov_to_focal_length 120 1280 = Finite (1280 / (2 * sqrt 3))"
  by (simp add: fov_to_focal_length_def np_true_divide_def radians_def tan_60)

lemma focal_builtin_bounds: "369.50 < 1280 / (2 * sqrt 3)" "1280 / (2 * sqrt 3) < 369.51"
proof -
  have p: "0 < sqrt 3" by simp
  show "369.50 < 1280 / (2 * sqrt 3)"
    using sqrt3_bounds(2) p by (simp add: field_simps)
  show "1280 / (2 * sqrt 3) < 369.51"
    using sqrt3_bounds(1) p by (simp add: field_simps)
qed

lemma tan_half_fov_pos:
  assumes "0 < fov" and "fov < 180"
  shows "0 < tan (radians fov / 2)"
proof -
  have "0 < radians fov / 2" using assms by (simp add: radians_def)
  moreover have "radians fov / 2 < pi / 2"
    using assms by (simp add: radians_def field_simps)
  ultimately show ?thesis by (rule tan_gt_zero)
qed

text \<open>
  C3, as the code has it.  For a field of view strictly between 0 and 180 degrees and any
  width, the focal length is the finite number \<open>width / (2 tan(fov/2 in radians))\<close>, in both
  variants.  At 120 degrees and 1280 pixels it is \<open>1280 / (2 sqrt 3)\<close>, which lies within
  \<open>1e-2\<close> of 369.50.
\<close>

theorem focal_length_closed_form:
  assumes "0 < fovDeg" and "fovDeg < 180"
  shows "fov_to_focal_length fovDeg widthPx = Finite (widthPx / (2 * tan (fovDeg / 2 * pi / 180)))
         \<and> GenerateCals_fov_to_focal_length fovDeg widthPx
             = Finite (widthPx / (2 * tan (fovDeg / 2 * pi / 180)))
         \<and> fov_to_focal_length 120 1280 = Finite (1280 / (2 * sqrt 3))
         \<and> \<bar>1280 / (2 * sqrt 3) - 369.50\<bar> \<le> 1 / 10 ^ 2"
proof -
  have nz: "tan (radians fovDeg / 2) \<noteq> 0"
    using tan_half_fov_pos [OF assms] by simp
  have eq: "radians fovDeg / 2 = fovDeg / 2 * pi / 180"
    by (simp add: radians_def)
  have a: "fov_to_focal_length fovDeg widthPx = Finite (widthPx / (2 * tan (fovDeg / 2 * pi / 180)))"
    using nz by (simp add: fov_to_focal_length_def np_true_divide_def eq)
  have b: "GenerateCals_fov_to_focal_length fovDeg widthPx
             = Finite (widthPx / (2 * tan (fovDeg / 2 * pi / 180)))"
    using nz by (simp add: GenerateCals_fov_to_focal_length_def np_true_divide_def eq)
  have c: "\<bar>1280 / (2 * sqrt 3) - 369.50\<bar> \<le> 1 / 10 ^ 2"
    using focal_builtin_bounds by linarith
  from a b c focal_builtin show ?thesis by blast
qed

text \<open>The hypotheses are met at 90 degrees and width 2, where the focal length is 1.\<close>

theorem focal_length_closed_form_witness:
  "(0::real) < 90 \<and> (90::real) < 180 \<and> fov_to_focal_length 90 2 = Finite 1"
  using focal_length_closed_form [of 90 2] by (simp add: tan_45)

text \<open>Neither value pinned by the specification, 369.55 or 369.95, is within \<open>1e-2\<close> of the
  focal length at 120 degrees and 1280 pixels.\<close>

theorem focal_length_pinned_values_counterexample:
  "fov_to_focal_length 120 1280 = Finite (1280 / (2 * sqrt 3))
   \<and> \<not> \<bar>1280 / (2 * sqrt 3) - 369.55\<bar> \<le> 1 / 10 ^ 2
   \<and> \<not> \<bar>1280 / (2 * sqrt 3) - 369.95\<bar> \<le> 1 / 10 ^ 2"
proof -
  have "\<not> \<bar>1280 / (2 * sqrt 3) - 369.55\<bar> \<le> 1 / 10 ^ 2"
    using focal_builtin_bounds by linarith
  moreover have "\<not> \<bar>1280 / (2 * sqrt 3) - 369.95\<bar> \<le> 1 / 10 ^ 2"
    using focal_builtin_bounds by linarith
  ultimately show ?thesis using focal_builtin by blast
qed

subsection \<open>Zero angles and the default roll\<close>

text \<open>
  C10.  At all-zero angles the rotation is the identity matrix, and a call without the roll
  argument returns what the call with roll 0 returns, for every yaw and pitch; in both variants.
\<close>

theorem zero_angles_identity_and_default_roll:
  "euler_to_rotation_matrix 0 0 (Some 0) = identity3
   \<and> euler_to_rotation_matrix yaw pitch None = euler_to_rotation_matrix yaw pitch (Some 0)
   \<and> GenerateCals_euler_to_rotation_matrix 0 0 (Some 0) = identity3
   \<and> GenerateCals_euler_to_rotation_matrix yaw pitch None
       = GenerateCals_euler_to_rotation_matrix yaw pitch (Some 0)"
  by (simp add: euler_to_rotation_matrix_def GenerateCals_euler_to_rotation_matrix_def
      radians_def identity3_def)

subsection \<open>The two variants compute the same geometry\<close>

lemma variants_geometry:
  "GenerateCals_euler_to_rotation_matrix y p ro = euler_to_rotation_matrix y p ro"
  "GenerateCals_fov_to_focal_length fov w = fov_to_focal_length fov w"
  by (simp_all add: GenerateCals_euler_to_rotation_matrix_def euler_to_rotation_matrix_def
      GenerateCals_fov_to_focal_length_def fov_to_focal_length_def)

section \<open>Generated files\<close>

lemma str_int_digits: "str_int 0 = ''0''" "str_int 1 = ''1''" "str_int 2 = ''2''" "str_int 3 = ''3''"
  by (simp_all add: str_int_def str_nat.simps digit_char_def)

lemma radians_values:
  "radians 0 = 0" "radians 90 = pi / 2" "radians 180 = pi" "radians 270 = 3 * pi / 2"
  by (simp_all add: radians_def)

lemma trig_270: "cos (3 * pi / 2) = 0" "sin (3 * pi / 2) = - 1"
  using cos_3over2_pi sin_3over2_pi by simp_all

lemma euler_roll_0:
  "euler_to_rotation_matrix y p (Some 0) = matmul (Rz (radians y)) (Rx (radians p))"
proof -
  have "Ry (radians 0) = identity3"
    by (simp add: Ry_def radians_def identity3_def)
  then show ?thesis
    by (simp add: euler_as_product matmul_identity3_right)
qed

lemma builtin_rotations_distinct:
  "distinct (map (\<lambda>yaw. matmul (Rz (radians yaw)) (Rx (radians 20))) [0, 90, 180, 270])"
  by (simp add: Rz_def Rx_def radians_values trig_270)

lemmas main_defs = main_with_def empty_world_def cameras_of_def main_loop_def
  save_and_report_def save_camera_yaml_def print_determinant_def write_output_crop_def Let_def

lemmas GenerateCals_defs = GenerateCals_script_with_def empty_world_def cameras_of_def
  GenerateCals_write_output_crop_def Let_def

lemma main_file_names:
  "map fst (files (main_with cfg empty_world)) =
     [''Camparam0.yaml'', ''Camparam1.yaml'', ''Camparam2.yaml'', ''Camparam3.yaml'',
      ''corner_warppts.yaml'']"
  by (simp add: main_defs str_int_digits)

lemma GenerateCals_file_names:
  "map fst (files (GenerateCals_script_with cfg empty_world)) =
     [''Camparam0.yaml'', ''Camparam1.yaml'', ''Camparam2.yaml'', ''Camparam3.yaml'',
      ''corner_warppts.yaml'']"
  by (simp add: GenerateCals_defs str_int_digits)

lemma main_with_camera_files:
  "take 4 (files (main_with cfg empty_world)) =
     (let f = fov_to_focal_length (horizontal_fov cfg) (real_of_int (image_width cfg));
          K = FsArray (Float32_2d [[f, Finite 0, Finite (real_of_int (image_width cfg) / 2)],
                                   [Finite 0, f, Finite (real_of_int (image_height cfg) / 2)],
                                   [Finite 0, Finite 0, Finite 1]]);
          doc = (\<lambda>name yaw ip port.
                  [(''FocalLength'', FsReal f), (''Intrisic'', K),
                   (''Rotation'', FsArray (astype_float32
                      (matmul (Rz (radians yaw)) (Rx (radians (pitch_down cfg)))))),
                   (''Translation'', FsArray zeros_3_1),
                   (''CameraName'', FsString name), (''CameraIP'', FsString ip),
                   (''CameraPort'', FsInt port)])
      in [(''Camparam0.yaml'', doc ''Front'' 0 ''192.168.45.10'' 5020),
          (''Camparam1.yaml'', doc ''Left'' 90 ''192.168.45.11'' 5021),
          (''Camparam2.yaml'', doc ''Rear'' 180 ''192.168.45.12'' 5022),
          (''Camparam3.yaml'', doc ''Right'' 270 ''192.168.45.13'' 5023)])"
  by (simp add: main_defs str_int_digits euler_roll_0)

lemma GenerateCals_camera_files:
  "take 4 (files (GenerateCals_script_with cfg empty_world)) =
     (let f = fov_to_focal_length (horizontal_fov cfg) (real_of_int (image_width cfg));
          K = FsArray (Float32_2d [[f, Finite 0, Finite (real_of_int (image_width cfg) / 2)],
                                   [Finite 0, f, Finite (real_of_int (image_height cfg) / 2)],
                                   [Finite 0, Finite 0, Finite 1]]);
          doc = (\<lambda>yaw.
                  [(''FocalLength'', FsReal f), (''Intrisic'', K),
                   (''Rotation'', FsArray (astype_float32
                      (matmul (Rz (radians yaw)) (Rx (radians (pitch_down cfg)))))),
                   (''Translation'', FsArray zeros_3_1)])
      in [(''Camparam0.yaml'', doc 0), (''Camparam1.yaml'', doc 90),
          (''Camparam2.yaml'', doc 180), (''Camparam3.yaml'', doc 270)])"
  by (simp add: GenerateCals_defs str_int_digits euler_roll_0 variants_geometry)

subsection \<open>Per-camera calibration files\<close>

text \<open>
  C4, as the code has it.  For the rig the script carries (1280 by 800 pixels, field of view
  120, pitch 20, cameras Front, Left, Rear, Right at yaw 0, 90, 180, 270) the run writes exactly
  four camera files and then the crop file.  The four files carry the same focal length
  \<open>f = 1280 / (2 sqrt 3)\<close>, which is 369.50 within \<open>1e-2\<close>, and the same intrinsic matrix
  \<open>[[f,0,640],[0,f,400],[0,0,1]]\<close>; the rotation of the camera at yaw \<open>y\<close> is
  \<open>Rz(y) \<cdot> Rx(20)\<close>, so the four rotations share the factor \<open>Rx(20)\<close>, differ in \<open>Rz(y)\<close> only,
  and are pairwise distinct.
\<close>

theorem builtin_rig_calibration_records:
  "take 4 (files main) =
     (let f = Finite (1280 / (2 * sqrt 3));
          K = FsArray (Float32_2d [[f, Finite 0, Finite 640],
                                   [Finite 0, f, Finite 400],
                                   [Finite 0, Finite 0, Finite 1]]);
          T = FsArray (Float64_2d [[Finite 0], [Finite 0], [Finite 0]]);
          doc = (\<lambda>name yaw ip port.
                  [(''FocalLength'', FsReal f), (''Intrisic'', K),
                   (''Rotation'', FsArray (astype_float32
                      (matmul (Rz (radians yaw)) (Rx (radians 20))))),
                   (''Translation'', T),
                   (''CameraName'', FsString name), (''CameraIP'', FsString ip),
                   (''CameraPort'', FsInt port)])
      in [(''Camparam0.yaml'', doc ''Front'' 0 ''192.168.45.10'' 5020),
          (''Camparam1.yaml'', doc ''Left'' 90 ''192.168.45.11'' 5021),
          (''Camparam2.yaml'', doc ''Rear'' 180 ''192.168.45.12'' 5022),
          (''Camparam3.yaml'', doc ''Right'' 270 ''192.168.45.13'' 5023)])
   \<and> map fst (files main) =
       [''Camparam0.yaml'', ''Camparam1.yaml'', ''Camparam2.yaml'', ''Camparam3.yaml'',
        ''corner_warppts.yaml'']
   \<and> distinct (map (\<lambda>yaw. matmul (Rz (radians yaw)) (Rx (radians 20))) [0, 90, 180, 270])
   \<and> \<bar>1280 / (2 * sqrt 3) - 369.50\<bar> \<le> 1 / 10 ^ 2"
proof -
  have a: "take 4 (files main) =
     (let f = Finite (1280 / (2 * sqrt 3));
          K = FsArray (Float32_2d [[f, Finite 0, Finite 640],
                                   [Finite 0, f, Finite 400],
                                   [Finite 0, Finite 0, Finite 1]]);
          T = FsArray (Float64_2d [[Finite 0], [Finite 0], [Finite 0]]);
          doc = (\<lambda>name yaw ip port.
                  [(''FocalLength'', FsReal f), (''Intrisic'', K),
                   (''Rotation'', FsArray (astype_float32
                      (matmul (Rz (radians yaw)) (Rx (radians 20))))),
                   (''Translation'', T),
                   (''CameraName'', FsString name), (''CameraIP'', FsString ip),
                   (''CameraPort'', FsInt port)])
      in [(''Camparam0.yaml'', doc ''Front'' 0 ''192.168.45.10'' 5020),
          (''Camparam1.yaml'', doc ''Left'' 90 ''192.168.45.11'' 5021),
          (''Camparam2.yaml'', doc ''Rear'' 180 ''192.168.45.12'' 5022),
          (''Camparam3.yaml'', doc ''Right'' 270 ''192.168.45.13'' 5023)])"
    unfolding main_def main_with_camera_files
    by (simp add: builtin_config_def focal_builtin zeros_3_1_def Let_def)
  have b: "map fst (files main) =
       [''Camparam0.yaml'', ''Camparam1.yaml'', ''Camparam2.yaml'', ''Camparam3.yaml'',
        ''corner_warppts.yaml'']"
    unfolding main_def by (rule main_file_names)
  have c: "\<bar>1280 / (2 * sqrt 3) - 369.50\<bar> \<le> 1 / 10 ^ 2"
    using focal_builtin_bounds by linarith
  from a b c builtin_rotations_distinct show ?thesis by blast
qed

text \<open>The focal length written for the built-in rig, on the diagonal of the intrinsic matrix
  too, is not within \<open>1e-2\<close> of 369.55.\<close>

theorem builtin_rig_focal_length_counterexample:
  "written_value main ''Camparam0.yaml'' ''FocalLength'' = Some (FsReal (Finite (1280 / (2 * sqrt 3))))
   \<and> written_value main ''Camparam0.yaml'' ''Intrisic'' =
       Some (FsArray (Float32_2d [[Finite (1280 / (2 * sqrt 3)), Finite 0, Finite 640],
                                  [Finite 0, Finite (1280 / (2 * sqrt 3)), Finite 400],
                                  [Finite 0, Finite 0, Finite 1]]))
   \<and> \<not> \<bar>1280 / (2 * sqrt 3) - 369.55\<bar> \<le> 1 / 10 ^ 2"
proof -
  have "\<not> \<bar>1280 / (2 * sqrt 3) - 369.55\<bar> \<le> 1 / 10 ^ 2"
    using focal_builtin_bounds by linarith
  then show ?thesis
    by (simp add: written_value_def main_def main_defs str_int_digits builtin_config_def focal_builtin)
qed

text \<open>
  C5, as the code has it.  \<open>save_camera_yaml\<close> stores under the name
  \<open>Camparam<idx>.yaml\<close> exactly seven entries, in this order: \<open>FocalLength\<close> (float),
  \<open>Intrisic\<close> (3x3 float32 array \<open>[[f,0,cx],[0,f,cy],[0,0,1]]\<close>), \<open>Rotation\<close> (the 3x3
  matrix as float32), \<open>Translation\<close> (3x1 float64 zeros), \<open>CameraName\<close> (string),
  \<open>CameraIP\<close> (string), \<open>CameraPort\<close> (integer).  The loop body of the GenerateCals
  variant stores under the same name the first four of these entries and no metadata.
\<close>

theorem camera_file_format:
  "map_of (files (save_camera_yaml idx name R f cx cy ip port w)) (''Camparam'' @ str_int idx @ ''.yaml'') =
     Some [(''FocalLength'', FsReal f),
           (''Intrisic'', FsArray (Float32_2d [[f, Finite 0, Finite cx],
                                               [Finite 0, f, Finite cy],
                                               [Finite 0, Finite 0, Finite 1]])),
           (''Rotation'', FsArray (Float32_2d (map (map Finite) (rows3 R)))),
           (''Translation'', FsArray (Float64_2d [[Finite 0], [Finite 0], [Finite 0]])),
           (''CameraName'', FsString name),
           (''CameraIP'', FsString ip),
           (''CameraPort'', FsInt port)]
   \<and> map_of (files (GenerateCals_loop_body f iw ih w (idx, name, yaw, pitch, roll, ip, port)))
        (''Camparam'' @ str_int idx @ ''.yaml'') =
     Some [(''FocalLength'', FsReal f),
           (''Intrisic'', FsArray (Float32_2d [[f, Finite 0, Finite (real_of_int iw / 2)],
                                               [Finite 0, f, Finite (real_of_int ih / 2)],
                                               [Finite 0, Finite 0, Finite 1]])),
           (''Rotation'', FsArray (Float32_2d (map (map Finite)
              (rows3 (GenerateCals_euler_to_rotation_matrix yaw pitch (Some roll)))))),
           (''Translation'', FsArray (Float64_2d [[Finite 0], [Finite 0], [Finite 0]]))]"
  by (simp add: save_camera_yaml_def astype_float32_def zeros_3_1_def Let_def update_conv')

text \<open>The file of camera 0 written by the GenerateCals variant has four keys; name, IP and
  port are absent.\<close>

theorem GenerateCals_camera_file_keys_counterexample:
  "map_option (map fst) (map_of (files GenerateCals_script) ''Camparam0.yaml'') =
     Some [''FocalLength'', ''Intrisic'', ''Rotation'', ''Translation'']"
  by (simp add: GenerateCals_script_def GenerateCals_defs str_int_digits)

subsection \<open>Validation, the crop file, the two variants\<close>

lemma focal_length_written:
  "map (\<lambda>filename. written_value (main_with cfg empty_world) filename ''FocalLength'')
       [''Camparam0.yaml'', ''Camparam1.yaml'', ''Camparam2.yaml'', ''Camparam3.yaml'']
   = replicate 4 (Some (FsReal (fov_to_focal_length (horizontal_fov cfg) (real_of_int (image_width cfg)))))"
  by (simp add: written_value_def main_defs str_int_digits numeral_eq_Suc)

text \<open>
  C6, as the code has it.  Neither variant checks the field of view.  For every configuration,
  whatever its \<open>horizontal_fov\<close>, the run writes the four camera files and the crop file, and
  each camera file of \<open>main\<close> carries the value \<open>fov_to_focal_length\<close> returned.  At field of view
  0 and width 1280 that value is the \<open>inf\<close> of a division by zero.
\<close>

theorem field_of_view_is_not_validated:
  "map fst (files (main_with cfg empty_world)) =
     [''Camparam0.yaml'', ''Camparam1.yaml'', ''Camparam2.yaml'', ''Camparam3.yaml'',
      ''corner_warppts.yaml'']
   \<and> map fst (files (GenerateCals_script_with cfg empty_world)) =
     [''Camparam0.yaml'', ''Camparam1.yaml'', ''Camparam2.yaml'', ''Camparam3.yaml'',
      ''corner_warppts.yaml'']
   \<and> map (\<lambda>filename. written_value (main_with cfg empty_world) filename ''FocalLength'')
         [''Camparam0.yaml'', ''Camparam1.yaml'', ''Camparam2.yaml'', ''Camparam3.yaml'']
       = replicate 4 (Some (FsReal (fov_to_focal_length (horizontal_fov cfg)
                                      (real_of_int (image_width cfg)))))
   \<and> fov_to_focal_length 0 1280 = PosInf"
proof -
  have "fov_to_focal_length 0 1280 = PosInf"
    by (simp add: fov_to_focal_length_def np_true_divide_def radians_def)
  with main_file_names GenerateCals_file_names focal_length_written show ?thesis by blast
qed

text \<open>At field of view 0 and at 180 both variants write a file for every camera; at 0 the
  focal length written is \<open>inf\<close>.\<close>

theorem field_of_view_0_and_180_counterexample:
  "fov_to_focal_length 0 1280 = PosInf
   \<and> map fst (files (main_with (builtin_config\<lparr>horizontal_fov := 0\<rparr>) empty_world)) =
       [''Camparam0.yaml'', ''Camparam1.yaml'', ''Camparam2.yaml'', ''Camparam3.yaml'',
        ''corner_warppts.yaml'']
   \<and> written_value (main_with (builtin_config\<lparr>horizontal_fov := 0\<rparr>) empty_world)
         ''Camparam0.yaml'' ''FocalLength'' = Some (FsReal PosInf)
   \<and> map fst (files (main_with (builtin_config\<lparr>horizontal_fov := 180\<rparr>) empty_world)) =
       [''Camparam0.yaml'', ''Camparam1.yaml'', ''Camparam2.yaml'', ''Camparam3.yaml'',
        ''corner_warppts.yaml'']
   \<and> map fst (files (GenerateCals_script_with (builtin_config\<lparr>horizontal_fov := 0\<rparr>) empty_world)) =
       [''Camparam0.yaml'', ''Camparam1.yaml'', ''Camparam2.yaml'', ''Camparam3.yaml'',
        ''corner_warppts.yaml'']
   \<and> map fst (files (GenerateCals_script_with (builtin_config\<lparr>horizontal_fov := 180\<rparr>) empty_world)) =
       [''Camparam0.yaml'', ''Camparam1.yaml'', ''Camparam2.yaml'', ''Camparam3.yaml'',
        ''corner_warppts.yaml'']"
proof -
  have z: "fov_to_focal_length 0 1280 = PosInf"
    by (simp add: fov_to_focal_length_def np_true_divide_def radians_def)
  have w: "written_value (main_with (builtin_config\<lparr>horizontal_fov := 0\<rparr>) empty_world)
         ''Camparam0.yaml'' ''FocalLength'' = Some (FsReal PosInf)"
    by (simp add: written_value_def main_defs str_int_digits builtin_config_def z)
  from z w show ?thesis
    by (simp only: main_file_names GenerateCals_file_names simp_thms)
qed

lemma crop_after_any_state:
  "map_of (files (write_output_crop w)) ''corner_warppts.yaml'' =
     Some [(''res_size'', FsArray (Int32_1d [1920, 1080])),
           (''tl'', FsArray (Int32_1d [0, 0])),
           (''tr'', FsArray (Int32_1d [1920, 0])),
           (''bl'', FsArray (Int32_1d [0, 1080])),
           (''br'', FsArray (Int32_1d [1920, 1080]))]"
  by (simp add: write_output_crop_def Let_def update_conv')

text \<open>
  C8.  The crop descriptor \<open>corner_warppts.yaml\<close> is the full-canvas rectangle of resolution
  (1920, 1080): \<open>res_size = [1920, 1080]\<close>, \<open>tl = [0, 0]\<close>, \<open>tr = [1920, 0]\<close>,
  \<open>bl = [0, 1080]\<close>, \<open>br = [1920, 1080]\<close>, each a 2-component int32 array.  It is the same for
  every configuration, every earlier state of the output directory and every camera list, in
  both variants.
\<close>

theorem output_crop_is_full_canvas:
  "map_of (files (main_with cfg w)) ''corner_warppts.yaml'' =
     Some [(''res_size'', FsArray (Int32_1d [1920, 1080])),
           (''tl'', FsArray (Int32_1d [0, 0])),
           (''tr'', FsArray (Int32_1d [1920, 0])),
           (''bl'', FsArray (Int32_1d [0, 1080])),
           (''br'', FsArray (Int32_1d [1920, 1080]))]
   \<and> map_of (files (write_output_crop (main_loop f iw ih cams w))) ''corner_warppts.yaml'' =
     Some [(''res_size'', FsArray (Int32_1d [1920, 1080])),
           (''tl'', FsArray (Int32_1d [0, 0])),
           (''tr'', FsArray (Int32_1d [1920, 0])),
           (''bl'', FsArray (Int32_1d [0, 1080])),
           (''br'', FsArray (Int32_1d [1920, 1080]))]
   \<and> map_of (files (GenerateCals_script_with cfg w)) ''corner_warppts.yaml'' =
     Some [(''res_size'', FsArray (Int32_1d [1920, 1080])),
           (''tl'', FsArray (Int32_1d [0, 0])),
           (''tr'', FsArray (Int32_1d [1920, 0])),
           (''bl'', FsArray (Int32_1d [0, 1080])),
           (''br'', FsArray (Int32_1d [1920, 1080]))]
   \<and> map sint [0, 1920, 1080 :: 32 word] = [0, 1920, 1080]"
proof -
  have g: "map_of (files (GenerateCals_script_with cfg w)) ''corner_warppts.yaml'' =
     Some [(''res_size'', FsArray (Int32_1d [1920, 1080])),
           (''tl'', FsArray (Int32_1d [0, 0])),
           (''tr'', FsArray (Int32_1d [1920, 0])),
           (''bl'', FsArray (Int32_1d [0, 1080])),
           (''br'', FsArray (Int32_1d [1920, 1080]))]"
    by (simp add: GenerateCals_script_with_def GenerateCals_write_output_crop_def Let_def update_conv')
  have s: "map sint [0, 1920, 1080 :: 32 word] = [0, 1920, 1080]"
    by simp
  from g s show ?thesis
    by (simp only: main_with_def Let_def crop_after_any_state simp_thms)
qed

text \<open>
  C9.  The two variants agree: \<open>euler_to_rotation_matrix\<close> and \<open>fov_to_focal_length\<close> return
  the same result on every argument, and for the built-in rig (and any other configuration) the
  variants write files of the same names, the same calibration content in each camera file
  (focal length, intrinsic matrix, rotation, translation; \<open>main\<close> adds the three metadata
  entries), and the same crop file.
\<close>

theorem variants_agree:
  "GenerateCals_euler_to_rotation_matrix yaw pitch rollArg = euler_to_rotation_matrix yaw pitch rollArg
   \<and> GenerateCals_fov_to_focal_length fov width = fov_to_focal_length fov width
   \<and> map fst (files main) = map fst (files GenerateCals_script)
   \<and> map (\<lambda>(filename, fs). (filename, calibration_content fs)) (take 4 (files main))
       = take 4 (files GenerateCals_script)
   \<and> drop 4 (files main) = drop 4 (files GenerateCals_script)
   \<and> map (\<lambda>(filename, fs). (filename, calibration_content fs))
         (take 4 (files (main_with cfg empty_world)))
       = take 4 (files (GenerateCals_script_with cfg empty_world))
   \<and> drop 4 (files (main_with cfg empty_world)) = drop 4 (files (GenerateCals_script_with cfg empty_world))"
proof -
  have t: "\<And>cfg. map (\<lambda>(filename, fs). (filename, calibration_content fs))
         (take 4 (files (main_with cfg empty_world)))
       = take 4 (files (GenerateCals_script_with cfg empty_world))"
    unfolding main_with_camera_files GenerateCals_camera_files
    by (simp add: calibration_content_def Let_def)
  have d: "\<And>cfg. drop 4 (files (main_with cfg empty_world))
       = drop 4 (files (GenerateCals_script_with cfg empty_world))"
    by (simp add: main_defs GenerateCals_script_with_def GenerateCals_write_output_crop_def
        str_int_digits)
  have n: "map fst (files main) = map fst (files GenerateCals_script)"
    by (simp only: main_def GenerateCals_script_def main_file_names GenerateCals_file_names)
  from t d n variants_geometry show ?thesis
    unfolding main_def GenerateCals_script_def by blast
qed

end
